theory Spec2Isabelle
  imports Complex_Main
begin

section \<open>Data model of scratch.ts\<close>

text \<open>
  A JavaScript \<^verbatim>\<open>number\<close> is modelled as a real; rounding of doubles is outside the
  model.  Objects are modelled by an explicit store: the fields a constructor sets once
  (\<^verbatim>\<open>left\<close>, \<^verbatim>\<open>right\<close>, \<^verbatim>\<open>inner\<close>, \<^verbatim>\<open>keyboard\<close>, \<^verbatim>\<open>key\<close>) are part of the
  reference to the object, the fields that are assigned later (\<^verbatim>\<open>wasDown\<close>, \<^verbatim>\<open>state\<close>,
  \<^verbatim>\<open>states\<close>, \<^verbatim>\<open>keys\<close>, \<^verbatim>\<open>scenes\<close>, ...) are maps of the world from references to values.
  Two references are the same object exactly when they are equal, so state is shared the
  way the TypeScript objects share it.  The first component of every reference is the
  number the object got when it was constructed.

  \<^verbatim>\<open>left\<close>, \<^verbatim>\<open>right\<close> and \<^verbatim>\<open>inner\<close> are private and assigned only in the constructor,
  from buttons that exist already, so the buttons under a composite form a finite tree
  and \<^verbatim>\<open>isDown()\<close> is a recursion over it.  References are never \<^verbatim>\<open>null\<close>, as their
  TypeScript types say.
\<close>

type_synonym number = real

text \<open>\<^verbatim>\<open>class Key extends Button\<close>: object number, \<^verbatim>\<open>keyboard\<close>, \<^verbatim>\<open>key\<close>.\<close>

datatype key = Key nat nat string

text \<open>
  \<^verbatim>\<open>abstract class Button\<close> and its four subclasses.  \<open>Leaf\<close> is a \<^verbatim>\<open>Key\<close> seen as
  a \<^verbatim>\<open>Button\<close>.
\<close>

datatype button =
    Leaf key
  | AndButton nat button button
  | OrButton nat button button
  | NotButton nat button

text \<open>
  \<^verbatim>\<open>class KernelScheduler\<close>.  The field \<^verbatim>\<open>callback\<close> is a function of the whole
  program state and is passed to the functions below as an argument.  \<open>requested\<close>
  counts the calls of \<^verbatim>\<open>window.requestAnimationFrame\<close> that the platform has not
  answered yet.  The rest of the program state, which the callback may change, is the
  extension of the record.
\<close>

record KernelScheduler =
  targetFPS :: number
  lastTick :: number
  executing :: bool
  requested :: nat

text \<open>
  The program state: the scheduler of the \<^verbatim>\<open>Kernel\<close>, the fields of all \<^verbatim>\<open>Button\<close>
  and \<^verbatim>\<open>Keyboard\<close> objects, and the fields of the \<^verbatim>\<open>Kernel\<close>.  A \<^verbatim>\<open>Scene\<close> is known
  to the kernel by reference only (a number); what the scene keeps in its private
  variables is \<open>scene_store\<close>, of a type the game chooses.  \<open>surface\<close> is what has been
  drawn on the canvas since it was last cleared.
\<close>

record 'st world = KernelScheduler +
  next_oid :: nat
  wasDown :: "button \<Rightarrow> bool"
  state :: "key \<Rightarrow> bool"
  states :: "nat \<Rightarrow> string \<rightharpoonup> bool"
  keys :: "nat \<Rightarrow> key list"
  keyboardDevice :: nat
  scenes :: "nat list"
  scene_store :: "nat \<Rightarrow> 'st"
  input :: "string \<rightharpoonup> button"
  surface :: "string list"
  focused :: bool

section \<open>Button\<close>

text \<open>\<^verbatim>\<open>isDown()\<close> of \<^verbatim>\<open>Key\<close>, \<^verbatim>\<open>AndButton\<close>, \<^verbatim>\<open>OrButton\<close> and \<^verbatim>\<open>NotButton\<close>.\<close>

fun isDown :: "'st world \<Rightarrow> button \<Rightarrow> bool" where
  "isDown w (Leaf k) = state w k"
| "isDown w (AndButton i l r) = (isDown w l \<and> isDown w r)"
| "isDown w (OrButton i l r) = (isDown w l \<or> isDown w r)"
| "isDown w (NotButton i b) = (\<not> isDown w b)"

definition isUp :: "'st world \<Rightarrow> button \<Rightarrow> bool" where
  "isUp w b = (\<not> isDown w b)"

definition pressed :: "'st world \<Rightarrow> button \<Rightarrow> bool" where
  "pressed w b = (isDown w b \<and> \<not> wasDown w b)"

definition release :: "'st world \<Rightarrow> button \<Rightarrow> bool" where
  "release w b = (\<not> isDown w b \<and> wasDown w b)"

text \<open>\<^verbatim>\<open>Button.update(dt)\<close>: \<^verbatim>\<open>this.wasDown = this.isDown()\<close>.\<close>

definition Button_update :: "'st world \<Rightarrow> button \<Rightarrow> number \<Rightarrow> 'st world" where
  "Button_update w b dt = w\<lparr>wasDown := (wasDown w)(b := isDown w b)\<rparr>"

text \<open>
  \<^verbatim>\<open>Key.update(dt)\<close>: \<^verbatim>\<open>super.update(dt)\<close>, then
  \<^verbatim>\<open>this.state = (this.keyboard.states[this.key] === true)\<close>.
\<close>

fun Key_update :: "'st world \<Rightarrow> key \<Rightarrow> number \<Rightarrow> 'st world" where
  "Key_update w (Key i kb k) dt =
     (let w1 = Button_update w (Leaf (Key i kb k)) dt
      in w1\<lparr>state := (state w1)(Key i kb k := (states w1 kb k = Some True))\<rparr>)"

text \<open>The call \<^verbatim>\<open>b.update(dt)\<close> on a \<^verbatim>\<open>Button\<close>: only \<^verbatim>\<open>Key\<close> overrides it.\<close>

fun update :: "'st world \<Rightarrow> button \<Rightarrow> number \<Rightarrow> 'st world" where
  "update w (Leaf k) dt = Key_update w k dt"
| "update w b dt = Button_update w b dt"

text \<open>
  \<^verbatim>\<open>id()\<close>.  A call that does not return has the value \<open>None\<close>.  \<^verbatim>\<open>AndButton\<close> and
  \<^verbatim>\<open>OrButton\<close> interpolate \<^verbatim>\<open>this.right.id\<close>, the method itself and not its result;
  \<open>text_of\<close> is the text the platform prints for that function value.
\<close>

partial_function (option) Button_id :: "(button \<Rightarrow> string) \<Rightarrow> button \<Rightarrow> string option" where
  "Button_id text_of b =
     (case b of
        Leaf k \<Rightarrow> (case k of Key i kb name \<Rightarrow> Some (''Keyboard.'' @ name))
      | AndButton i l r \<Rightarrow>
          Option.bind (Button_id text_of l) (\<lambda>s. Some (''('' @ s @ '')&('' @ text_of r @ '')''))
      | OrButton i l r \<Rightarrow>
          Option.bind (Button_id text_of l) (\<lambda>s. Some (''('' @ s @ '')|('' @ text_of r @ '')''))
      | NotButton i inner \<Rightarrow>
          Option.bind (Button_id text_of b) (\<lambda>s. Some (''!'' @ s)))"

text \<open>The constructors: \<^verbatim>\<open>Button\<close>'s sets \<^verbatim>\<open>wasDown = false\<close>.\<close>

definition new_AndButton :: "'st world \<Rightarrow> button \<Rightarrow> button \<Rightarrow> button \<times> 'st world" where
  "new_AndButton w l r =
     (let b = AndButton (next_oid w) l r
      in (b, w\<lparr>next_oid := Suc (next_oid w), wasDown := (wasDown w)(b := False)\<rparr>))"

definition new_OrButton :: "'st world \<Rightarrow> button \<Rightarrow> button \<Rightarrow> button \<times> 'st world" where
  "new_OrButton w l r =
     (let b = OrButton (next_oid w) l r
      in (b, w\<lparr>next_oid := Suc (next_oid w), wasDown := (wasDown w)(b := False)\<rparr>))"

definition new_NotButton :: "'st world \<Rightarrow> button \<Rightarrow> button \<times> 'st world" where
  "new_NotButton w inner =
     (let b = NotButton (next_oid w) inner
      in (b, w\<lparr>next_oid := Suc (next_oid w), wasDown := (wasDown w)(b := False)\<rparr>))"

definition new_Key :: "'st world \<Rightarrow> nat \<Rightarrow> string \<Rightarrow> key \<times> 'st world" where
  "new_Key w kb name =
     (let k = Key (next_oid w) kb name
      in (k, w\<lparr>next_oid := Suc (next_oid w),
               wasDown := (wasDown w)(Leaf k := False),
               state := (state w)(k := False)\<rparr>))"

section \<open>Keyboard\<close>

text \<open>
  The constructor: \<^verbatim>\<open>states = {}\<close>, \<^verbatim>\<open>keys = []\<close>.  The two handlers it installs on
  the canvas are \<open>Keyboard_onkeydown\<close> and \<open>Keyboard_onkeyup\<close>.
\<close>

definition new_Keyboard :: "'st world \<Rightarrow> nat \<times> 'st world" where
  "new_Keyboard w =
     (let kb = next_oid w
      in (kb, w\<lparr>next_oid := Suc (next_oid w),
                states := (states w)(kb := Map.empty),
                keys := (keys w)(kb := [])\<rparr>))"

definition Keyboard_onkeydown :: "'st world \<Rightarrow> nat \<Rightarrow> string \<Rightarrow> 'st world" where
  "Keyboard_onkeydown w kb name = w\<lparr>states := (states w)(kb := (states w kb)(name \<mapsto> True))\<rparr>"

definition Keyboard_onkeyup :: "'st world \<Rightarrow> nat \<Rightarrow> string \<Rightarrow> 'st world" where
  "Keyboard_onkeyup w kb name = w\<lparr>states := (states w)(kb := (states w kb)(name := None))\<rparr>"

definition Keyboard_key :: "'st world \<Rightarrow> nat \<Rightarrow> string \<Rightarrow> button \<times> 'st world" where
  "Keyboard_key w kb name =
     (let (result, w1) = new_Key w kb name
      in (Leaf result, w1\<lparr>keys := (keys w1)(kb := keys w1 kb @ [result])\<rparr>))"

text \<open>\<^verbatim>\<open>this.keys.forEach((key) => key.update(dt))\<close>, over the array as it is at the call.\<close>

fun forEach_update :: "'st world \<Rightarrow> key list \<Rightarrow> number \<Rightarrow> 'st world" where
  "forEach_update w [] dt = w"
| "forEach_update w (k # ks) dt = forEach_update (Key_update w k dt) ks dt"

definition Keyboard_update :: "'st world \<Rightarrow> nat \<Rightarrow> number \<Rightarrow> 'st world" where
  "Keyboard_update w kb dt = forEach_update w (keys w kb) dt"

section \<open>KernelScheduler\<close>

text \<open>
  The JavaScript comparison \<^verbatim>\<open>elapsed > 1 / fps\<close>.  In JavaScript \<^verbatim>\<open>1 / 0\<close> is
  \<^verbatim>\<open>Infinity\<close>, which no elapsed time exceeds; in HOL \<open>1 / 0 = 0\<close>, so the case is
  written out.
\<close>

definition exceeds_period :: "number \<Rightarrow> number \<Rightarrow> bool" where
  "exceeds_period elapsed fps = (fps \<noteq> 0 \<and> elapsed > 1 / fps)"

text \<open>The constructor, for a program whose remaining state is \<open>rest\<close>.\<close>

definition new_KernelScheduler :: "number \<Rightarrow> 'z \<Rightarrow> 'z KernelScheduler_scheme" where
  "new_KernelScheduler fps rest =
     \<lparr>targetFPS = fps, lastTick = 0, executing = False, requested = 0, \<dots> = rest\<rparr>"

definition scheduleTick :: "'z KernelScheduler_scheme \<Rightarrow> 'z KernelScheduler_scheme" where
  "scheduleTick s = s\<lparr>requested := Suc (requested s)\<rparr>"

definition KernelScheduler_start :: "'z KernelScheduler_scheme \<Rightarrow> 'z KernelScheduler_scheme" where
  "KernelScheduler_start s = (if \<not> executing s then scheduleTick (s\<lparr>executing := True\<rparr>) else s)"

definition KernelScheduler_stop :: "'z KernelScheduler_scheme \<Rightarrow> 'z KernelScheduler_scheme" where
  "KernelScheduler_stop s = (s\<lparr>executing := False\<rparr>)\<lparr>lastTick := 0\<rparr>"

text \<open>
  \<^verbatim>\<open>KernelScheduler.tick(timeMS)\<close>.  The callback runs on the whole state, then
  \<^verbatim>\<open>this.lastTick = time\<close> is assigned in the state the callback left.
\<close>

definition KernelScheduler_tick ::
  "(number \<Rightarrow> 'z KernelScheduler_scheme \<Rightarrow> 'z KernelScheduler_scheme) \<Rightarrow>
   'z KernelScheduler_scheme \<Rightarrow> number \<Rightarrow> 'z KernelScheduler_scheme" where
  "KernelScheduler_tick callback s timeMS =
     (if executing s then
        (let time = timeMS / 1000;
             s1 = (if exceeds_period (time - lastTick s) (targetFPS s)
                   then (callback (time - lastTick s) s)\<lparr>lastTick := time\<rparr>
                   else s)
         in scheduleTick s1)
      else s)"

text \<open>
  The platform answers one outstanding \<^verbatim>\<open>requestAnimationFrame\<close> request: it calls
  the function that \<open>scheduleTick\<close> passed, \<^verbatim>\<open>(t) => this.tick(t)\<close>, with the time stamp
  in milliseconds.
\<close>

definition animation_frame ::
  "(number \<Rightarrow> 'z KernelScheduler_scheme \<Rightarrow> 'z KernelScheduler_scheme) \<Rightarrow>
   'z KernelScheduler_scheme \<Rightarrow> number \<Rightarrow> 'z KernelScheduler_scheme" where
  "animation_frame callback s timeMS =
     (if requested s = 0 then s
      else KernelScheduler_tick callback (s\<lparr>requested := requested s - 1\<rparr>) timeMS)"

fun animation_frames ::
  "(number \<Rightarrow> 'z KernelScheduler_scheme \<Rightarrow> 'z KernelScheduler_scheme) \<Rightarrow>
   'z KernelScheduler_scheme \<Rightarrow> number list \<Rightarrow> 'z KernelScheduler_scheme" where
  "animation_frames callback s [] = s"
| "animation_frames callback s (t # ts) =
     animation_frames callback (animation_frame callback s t) ts"

section \<open>Kernel\<close>

text \<open>
  The constructor: a scheduler at 60 frames per second, an empty \<^verbatim>\<open>input\<close> registry, a
  new \<^verbatim>\<open>Keyboard\<close>, no scenes.  \<open>store\<close> is what the game's scenes hold.
\<close>

definition new_Kernel :: "(nat \<Rightarrow> 'st) \<Rightarrow> 'st world" where
  "new_Kernel store =
     (let w0 = \<lparr>targetFPS = 60, lastTick = 0, executing = False, requested = 0,
                next_oid = 0, wasDown = (\<lambda>b. False), state = (\<lambda>k. False),
                states = (\<lambda>kb. Map.empty), keys = (\<lambda>kb. []), keyboardDevice = 0,
                scenes = [], scene_store = store, input = Map.empty,
                surface = [], focused = False\<rparr>;
          (kb, w1) = new_Keyboard w0
      in w1\<lparr>keyboardDevice := kb\<rparr>)"

text \<open>\<^verbatim>\<open>scene()\<close>: the top of the stack, or \<^verbatim>\<open>null\<close> (here \<open>None\<close>).\<close>

definition Kernel_scene :: "'st world \<Rightarrow> nat option" where
  "Kernel_scene w =
     (if length (scenes w) > 0 then Some (scenes w ! (length (scenes w) - 1)) else None)"

definition Kernel_push :: "'st world \<Rightarrow> nat \<Rightarrow> 'st world" where
  "Kernel_push w scene = w\<lparr>scenes := scenes w @ [scene]\<rparr>"

text \<open>\<^verbatim>\<open>Array.prototype.pop\<close> removes the last element; on an empty array it does nothing.\<close>

definition Kernel_pop :: "'st world \<Rightarrow> 'st world" where
  "Kernel_pop w = w\<lparr>scenes := butlast (scenes w)\<rparr>"

definition Kernel_swap :: "'st world \<Rightarrow> nat \<Rightarrow> 'st world" where
  "Kernel_swap w scene =
     (let w1 = w\<lparr>scenes := butlast (scenes w)\<rparr>
      in w1\<lparr>scenes := scenes w1 @ [scene]\<rparr>)"

definition Kernel_exec :: "'st world \<Rightarrow> nat \<Rightarrow> 'st world" where
  "Kernel_exec w scene =
     (let w1 = w\<lparr>scenes := scenes w @ [scene]\<rparr>;
          w2 = w1\<lparr>focused := True\<rparr>
      in KernelScheduler_start w2)"

text \<open>\<^verbatim>\<open>c.clearRect(0, 0, c.canvas.width, c.canvas.height)\<close>.\<close>

definition clearRect :: "'st world \<Rightarrow> 'st world" where
  "clearRect w = w\<lparr>surface := []\<rparr>"

text \<open>
  \<^verbatim>\<open>Kernel.tick(dt)\<close>.  What the scenes do is the game's code: \<open>upd s\<close> and \<open>rnd s\<close> are
  the \<^verbatim>\<open>update\<close> and \<^verbatim>\<open>render\<close> methods of the scene \<open>s\<close>, any functions of the program
  state.  The variable \<^verbatim>\<open>scene\<close> is read once, after the input poll.
\<close>

definition Kernel_tick ::
  "(nat \<Rightarrow> number \<Rightarrow> 'st world \<Rightarrow> 'st world) \<Rightarrow> (nat \<Rightarrow> number \<Rightarrow> 'st world \<Rightarrow> 'st world) \<Rightarrow>
   'st world \<Rightarrow> number \<Rightarrow> 'st world" where
  "Kernel_tick upd rnd w dt =
     (let w1 = Keyboard_update w (keyboardDevice w) dt;
          scene = Kernel_scene w1;
          w2 = (case scene of Some s \<Rightarrow> upd s dt w1 | None \<Rightarrow> w1);
          w3 = clearRect w2
      in (case scene of Some s \<Rightarrow> rnd s dt w3 | None \<Rightarrow> w3))"

section \<open>Runs of the program\<close>

text \<open>The two notifications of the platform's key-event source.\<close>

datatype raw = KeyDown nat string | KeyUp nat string

fun deliver :: "raw \<Rightarrow> 'st world \<Rightarrow> 'st world" where
  "deliver (KeyDown kb name) w = Keyboard_onkeydown w kb name"
| "deliver (KeyUp kb name) w = Keyboard_onkeyup w kb name"

fun deliver_all :: "raw list \<Rightarrow> 'st world \<Rightarrow> 'st world" where
  "deliver_all [] w = w"
| "deliver_all (e # es) w = deliver_all es (deliver e w)"

text \<open>
  What game code and the platform can do to buttons and keyboards between two moments:
  the public operations of the classes.
\<close>

datatype op =
    Raw raw
  | NewKeyboard
  | NewKey nat string
  | KeyboardKey nat string
  | NewAnd button button
  | NewOr button button
  | NewNot button
  | Update button number
  | KeyboardUpdate nat number
  | Push nat
  | Pop
  | Swap nat

fun exec :: "op \<Rightarrow> 'st world \<Rightarrow> 'st world" where
  "exec (Raw e) w = deliver e w"
| "exec NewKeyboard w = snd (new_Keyboard w)"
| "exec (NewKey kb name) w = snd (new_Key w kb name)"
| "exec (KeyboardKey kb name) w = snd (Keyboard_key w kb name)"
| "exec (NewAnd l r) w = snd (new_AndButton w l r)"
| "exec (NewOr l r) w = snd (new_OrButton w l r)"
| "exec (NewNot b) w = snd (new_NotButton w b)"
| "exec (Update b dt) w = update w b dt"
| "exec (KeyboardUpdate kb dt) w = Keyboard_update w kb dt"
| "exec (Push s) w = Kernel_push w s"
| "exec Pop w = Kernel_pop w"
| "exec (Swap s) w = Kernel_swap w s"

fun run :: "op list \<Rightarrow> 'st world \<Rightarrow> 'st world" where
  "run [] w = w"
| "run (x # xs) w = run xs (exec x w)"

text \<open>
  The buttons whose constructor or whose \<^verbatim>\<open>update\<close> method runs when \<open>x\<close> is executed
  in \<open>w\<close>.
\<close>

fun stepped :: "'st world \<Rightarrow> op \<Rightarrow> button list" where
  "stepped w (NewKey kb name) = [Leaf (Key (next_oid w) kb name)]"
| "stepped w (KeyboardKey kb name) = [Leaf (Key (next_oid w) kb name)]"
| "stepped w (NewAnd l r) = [AndButton (next_oid w) l r]"
| "stepped w (NewOr l r) = [OrButton (next_oid w) l r]"
| "stepped w (NewNot b) = [NotButton (next_oid w) b]"
| "stepped w (Update b dt) = [b]"
| "stepped w (KeyboardUpdate kb dt) = map Leaf (keys w kb)"
| "stepped w x = []"

text \<open>No operation of the run \<open>xs\<close> from \<open>w\<close> constructs \<open>b\<close> or calls \<open>b\<close>'s \<^verbatim>\<open>update\<close>.\<close>

fun unstepped :: "button \<Rightarrow> 'st world \<Rightarrow> op list \<Rightarrow> bool" where
  "unstepped b w [] = True"
| "unstepped b w (x # xs) = (b \<notin> set (stepped w x) \<and> unstepped b (exec x w) xs)"

section \<open>States and callbacks used in the examples\<close>

text \<open>A scheduler callback that only records the \<open>dt\<close> it is called with.\<close>

definition record_call ::
  "number \<Rightarrow> number list KernelScheduler_scheme \<Rightarrow> number list KernelScheduler_scheme" where
  "record_call dt s = s\<lparr>KernelScheduler.more := KernelScheduler.more s @ [dt]\<rparr>"

text \<open>\<^verbatim>\<open>new KernelScheduler(callback, 60)\<close>, then \<^verbatim>\<open>start()\<close>.\<close>

definition started :: "number list KernelScheduler_scheme" where
  "started = KernelScheduler_start (new_KernelScheduler 60 [])"

text \<open>The same scheduler after \<^verbatim>\<open>stop()\<close>; the request made by \<^verbatim>\<open>start()\<close> is still out.\<close>

definition stopped :: "number list KernelScheduler_scheme" where
  "stopped = KernelScheduler_stop started"

text \<open>
  A kernel whose keyboard (object 0) has issued one key, object 1, for \<^verbatim>\<open>'Enter'\<close>, and
  a second key for \<^verbatim>\<open>'a'\<close>, object 2, made with \<^verbatim>\<open>new Key(keyboard, 'a')\<close> and so
  not in the keyboard's list.
\<close>

definition demo :: "unit world" where
  "demo = snd (new_Key (snd (Keyboard_key (new_Kernel (\<lambda>s. ())) 0 ''Enter'')) 0 ''a'')"

text \<open>Scene methods that draw one word each.\<close>

definition draw_update :: "nat \<Rightarrow> number \<Rightarrow> unit world \<Rightarrow> unit world" where
  "draw_update s dt w = w\<lparr>surface := surface w @ [''update'']\<rparr>"

definition draw_render :: "nat \<Rightarrow> number \<Rightarrow> unit world \<Rightarrow> unit world" where
  "draw_render s dt w = w\<lparr>surface := surface w @ [''render'']\<rparr>"

section \<open>Frame lemmas\<close>

lemma isDown_state_cong: "state w = state w' \<Longrightarrow> isDown w b = isDown w' b"
  by (induction b) simp_all

lemma Key_update_wasDown:
  "wasDown (Key_update w k dt) b = (if b = Leaf k then state w k else wasDown w b)"
  by (cases k) (simp add: Button_update_def)

lemma Key_update_state:
  "state (Key_update w (Key i kb name) dt) k =
     (if k = Key i kb name then states w kb name = Some True else state w k)"
  by (simp add: Button_update_def)

lemma Key_update_state_other: "k' \<noteq> k \<Longrightarrow> state (Key_update w k dt) k' = state w k'"
  by (cases k) (simp add: Button_update_def)

lemma Key_update_scenes: "scenes (Key_update w k dt) = scenes w"
  by (cases k) (simp add: Button_update_def)

lemma forEach_update_scenes: "scenes (forEach_update w ks dt) = scenes w"
  by (induction ks arbitrary: w) (simp_all add: Key_update_scenes del: Key_update.simps)

lemma forEach_update_wasDown:
  "b \<notin> Leaf ` set ks \<Longrightarrow> wasDown (forEach_update w ks dt) b = wasDown w b"
  by (induction ks arbitrary: w) (auto simp: Key_update_wasDown simp del: Key_update.simps)

lemma forEach_update_state:
  "k \<notin> set ks \<Longrightarrow> state (forEach_update w ks dt) k = state w k"
  by (induction ks arbitrary: w) (auto simp: Key_update_state_other simp del: Key_update.simps)

lemma forEach_update_fold:
  "forEach_update w ks dt = fold (\<lambda>k v. Key_update v k dt) ks w"
  by (induction ks arbitrary: w) (simp_all del: Key_update.simps)

text \<open>
  \<^verbatim>\<open>Keyboard.update\<close> is the run of the \<^verbatim>\<open>update\<close> calls on the keys it has issued, in
  the order of issue.
\<close>

lemma Keyboard_update_run:
  "Keyboard_update w kb dt = run (map (\<lambda>k. Update (Leaf k) dt) (keys w kb)) w"
proof -
  have "forEach_update v ks dt = run (map (\<lambda>k. Update (Leaf k) dt) ks) v"
    for v :: "'a world" and ks
    by (induction ks arbitrary: v) (simp_all del: Key_update.simps)
  then show ?thesis by (simp add: Keyboard_update_def)
qed

lemma update_wasDown_self: "wasDown (update w b dt) b = isDown w b"
  by (cases b) (simp_all add: Button_update_def Key_update_wasDown del: Key_update.simps)

lemma deliver_state: "state (deliver e w) = state w"
  by (cases e) (simp_all add: Keyboard_onkeydown_def Keyboard_onkeyup_def)

lemma deliver_wasDown: "wasDown (deliver e w) = wasDown w"
  by (cases e) (simp_all add: Keyboard_onkeydown_def Keyboard_onkeyup_def)

lemma deliver_all_state: "state (deliver_all es w) = state w"
  by (induction es arbitrary: w) (simp_all add: deliver_state)

lemma deliver_all_wasDown: "wasDown (deliver_all es w) = wasDown w"
  by (induction es arbitrary: w) (simp_all add: deliver_wasDown)

text \<open>Only a constructor of \<open>b\<close> or a call of \<open>b\<close>'s \<^verbatim>\<open>update\<close> assigns \<open>b\<close>'s \<^verbatim>\<open>wasDown\<close>.\<close>

lemma exec_wasDown:
  assumes "b \<notin> set (stepped w x)"
  shows "wasDown (exec x w) b = wasDown w b"
proof (cases x)
  case (Raw e)
  then show ?thesis by (simp add: deliver_wasDown)
next
  case (Update c dt)
  with assms show ?thesis
    by (cases c) (simp_all add: Button_update_def Key_update_wasDown del: Key_update.simps)
next
  case (KeyboardUpdate kb dt)
  with assms show ?thesis
    by (simp add: Keyboard_update_def forEach_update_wasDown)
next
  case NewKeyboard
  then show ?thesis by (simp add: new_Keyboard_def Let_def)
next
  case (NewKey kb name)
  with assms show ?thesis by (simp add: new_Key_def Let_def)
next
  case (KeyboardKey kb name)
  with assms show ?thesis by (simp add: Keyboard_key_def new_Key_def Let_def)
next
  case (NewAnd l r)
  with assms show ?thesis by (simp add: new_AndButton_def Let_def)
next
  case (NewOr l r)
  with assms show ?thesis by (simp add: new_OrButton_def Let_def)
next
  case (NewNot c)
  with assms show ?thesis by (simp add: new_NotButton_def Let_def)
next
  case (Push s)
  then show ?thesis by (simp add: Kernel_push_def)
next
  case Pop
  then show ?thesis by (simp add: Kernel_pop_def)
next
  case (Swap s)
  then show ?thesis by (simp add: Kernel_swap_def Let_def)
qed

lemma run_wasDown: "unstepped b w xs \<Longrightarrow> wasDown (run xs w) b = wasDown w b"
  by (induction xs arbitrary: w) (simp_all add: exec_wasDown)

lemma NotButton_id_unfold:
  "Button_id text_of (NotButton i b) =
     Option.bind (Button_id text_of (NotButton i b)) (\<lambda>s. Some (''!'' @ s))"
  by (subst Button_id.simps) simp

lemmas demo_defs = demo_def new_Kernel_def new_Keyboard_def Keyboard_key_def new_Key_def
  new_NotButton_def new_AndButton_def new_OrButton_def
  Keyboard_onkeydown_def Keyboard_onkeyup_def Keyboard_update_def Button_update_def Let_def

lemmas scheduler_defs = started_def stopped_def new_KernelScheduler_def KernelScheduler_start_def
  KernelScheduler_stop_def KernelScheduler_tick_def animation_frame_def scheduleTick_def
  record_call_def exceeds_period_def Let_def

section \<open>Edge detection\<close>

text \<open>
  C1.  Let \<open>b\<close> be any button and let \<open>b.update(dt)\<close> be called in the state \<open>w\<close>.  After
  any run \<open>xs\<close> of operations in which \<open>b\<close>'s \<^verbatim>\<open>update\<close> is not called again (raw key
  events, updates of other buttons, \<^verbatim>\<open>Keyboard.update\<close> of keyboards that did not issue
  \<open>b\<close>, construction of other buttons, changes of the scene stack), \<open>pressed()\<close> is true
  iff \<open>isDown()\<close> is true now and \<open>isDown()\<close> was false in \<open>w\<close>, when \<^verbatim>\<open>update\<close> was
  called; \<open>release()\<close> is true iff \<open>isDown()\<close> is false now and was true in \<open>w\<close>.  For
  a \<^verbatim>\<open>Key\<close>, \<^verbatim>\<open>update\<close> stores in \<^verbatim>\<open>wasDown\<close> the \<^verbatim>\<open>state\<close> of before the call, and
  only then samples the raw map into \<^verbatim>\<open>state\<close>.
\<close>

theorem Button_edge_detection:
  "unstepped b (update w b dt) xs \<Longrightarrow>
     pressed (run xs (update w b dt)) b = (isDown (run xs (update w b dt)) b \<and> \<not> isDown w b) \<and>
     release (run xs (update w b dt)) b = (\<not> isDown (run xs (update w b dt)) b \<and> isDown w b) \<and>
     wasDown (Key_update w (Key i kb name) dt) (Leaf (Key i kb name)) = state w (Key i kb name) \<and>
     state (Key_update w (Key i kb name) dt) (Key i kb name) = (states w kb name = Some True)"
  by (simp add: pressed_def release_def run_wasDown update_wasDown_self Key_update_wasDown
      Key_update_state del: Key_update.simps)

text \<open>
  \<^verbatim>\<open>'Enter'\<close> goes down, its key is updated, then the key goes up again and other
  buttons are made and updated: the key reports \<open>pressed\<close> until its next update.
\<close>

theorem Button_edge_detection_witness:
  "unstepped (Leaf (Key 1 0 ''Enter''))
     (update (Keyboard_onkeydown demo 0 ''Enter'') (Leaf (Key 1 0 ''Enter'')) (1 / 60))
     [Raw (KeyUp 0 ''Enter''), KeyboardKey 0 ''b'', NewNot (Leaf (Key 1 0 ''Enter'')),
      Update (Leaf (Key 2 0 ''a'')) (1 / 60)] \<and>
   pressed (run [Raw (KeyUp 0 ''Enter''), KeyboardKey 0 ''b'', NewNot (Leaf (Key 1 0 ''Enter'')),
      Update (Leaf (Key 2 0 ''a'')) (1 / 60)]
     (update (Keyboard_onkeydown demo 0 ''Enter'') (Leaf (Key 1 0 ''Enter'')) (1 / 60)))
     (Leaf (Key 1 0 ''Enter'')) \<and>
   \<not> wasDown (Key_update (Keyboard_onkeydown demo 0 ''Enter'') (Key 1 0 ''Enter'') (1 / 60))
     (Leaf (Key 1 0 ''Enter'')) \<and>
   state (Key_update (Keyboard_onkeydown demo 0 ''Enter'') (Key 1 0 ''Enter'') (1 / 60))
     (Key 1 0 ''Enter'')"
  using Button_edge_detection [of "Leaf (Key 1 0 ''Enter'')" "Keyboard_onkeydown demo 0 ''Enter''"
      "1 / 60" "[Raw (KeyUp 0 ''Enter''), KeyboardKey 0 ''b'', NewNot (Leaf (Key 1 0 ''Enter'')),
      Update (Leaf (Key 2 0 ''a'')) (1 / 60)]" 1 0 "''Enter''"]
  by (simp add: demo_defs pressed_def release_def)

section \<open>One tick of the kernel\<close>

text \<open>
  C2.  A tick is, in this order: \<^verbatim>\<open>keyboard.update(dt)\<close>; the \<^verbatim>\<open>update(dt)\<close> of the scene
  on top of the stack, if there is one; the clearing of the surface; the
  \<^verbatim>\<open>render(dt, surface)\<close> of that same scene, if there is one.  Each step works on the
  state the step before left.  With an empty stack the tick is the input poll followed
  by the clearing.  The scene is the top of the stack as the tick finds it: the input
  poll does not change the stack, and the scene is not looked up again after its
  \<^verbatim>\<open>update\<close>.
\<close>

theorem Kernel_tick_order:
  "Kernel_tick upd rnd w dt =
     (if scenes w = [] then clearRect (Keyboard_update w (keyboardDevice w) dt)
      else rnd (last (scenes w)) dt
             (clearRect (upd (last (scenes w)) dt (Keyboard_update w (keyboardDevice w) dt))))"
  by (simp add: Kernel_tick_def Kernel_scene_def Keyboard_update_def forEach_update_scenes
      Let_def last_conv_nth)

text \<open>
  With a scene on the stack only what \<^verbatim>\<open>render\<close> drew is left on the surface, because
  the clearing comes between \<^verbatim>\<open>update\<close> and \<^verbatim>\<open>render\<close>; with none the surface is empty.
  Both ticks have sampled the keyboard.
\<close>

theorem Kernel_tick_order_witness:
  "surface (Kernel_tick draw_update draw_render
      (Kernel_push (Keyboard_onkeydown demo 0 ''Enter'') 7) (1 / 60)) = [''render''] \<and>
   state (Kernel_tick draw_update draw_render
      (Kernel_push (Keyboard_onkeydown demo 0 ''Enter'') 7) (1 / 60)) (Key 1 0 ''Enter'') \<and>
   surface (Kernel_tick draw_update draw_render
      ((Keyboard_onkeydown demo 0 ''Enter'')\<lparr>surface := [''old'']\<rparr>) (1 / 60)) = [] \<and>
   state (Kernel_tick draw_update draw_render
      ((Keyboard_onkeydown demo 0 ''Enter'')\<lparr>surface := [''old'']\<rparr>) (1 / 60)) (Key 1 0 ''Enter'')"
  using Kernel_tick_order [of draw_update draw_render
      "Kernel_push (Keyboard_onkeydown demo 0 ''Enter'') 7" "1 / 60"]
    Kernel_tick_order [of draw_update draw_render
      "(Keyboard_onkeydown demo 0 ''Enter'')\<lparr>surface := [''old'']\<rparr>" "1 / 60"]
  by (simp add: demo_defs Kernel_push_def clearRect_def draw_update_def draw_render_def)

section \<open>The rate cap of the scheduler\<close>

text \<open>
  C3, as stated, fails for a scheduler that has been stopped: the notification that was
  requested before \<^verbatim>\<open>stop()\<close> still arrives, and \<^verbatim>\<open>tick\<close> then does nothing because of
  its test of \<^verbatim>\<open>executing\<close>.  Here the notification comes at 1 s, \<^verbatim>\<open>lastTick\<close> is 0 and
  the period is 1/60 s, but the callback is not called and \<^verbatim>\<open>lastTick\<close> stays 0.
\<close>

theorem KernelScheduler_tick_stopped_counterexample:
  "requested stopped = 1 \<and>
   exceeds_period (1000 / 1000 - lastTick stopped) (targetFPS stopped) \<and>
   KernelScheduler.more (animation_frame record_call stopped 1000) = [] \<and>
   lastTick (animation_frame record_call stopped 1000) \<noteq> 1000 / 1000"
  by (simp add: scheduler_defs)

text \<open>
  C3, amended.  On a frame notification with time stamp \<open>t = timeMS / 1000\<close> seconds that
  reaches a scheduler that is executing, let \<open>elapsed = t - lastTick\<close>.  If
  \<open>elapsed > 1 / targetFPS\<close>, the callback is called with \<open>dt = elapsed\<close> and
  \<^verbatim>\<open>lastTick\<close> becomes \<open>t\<close>; otherwise the callback is not called and \<^verbatim>\<open>lastTick\<close> keeps
  its value, so the time is part of the next accepted \<open>dt\<close>.  In both cases the next
  notification is requested.  With \<open>targetFPS = 60\<close> and notifications at 0 s, 0.005 s
  and 0.020 s after \<^verbatim>\<open>start()\<close>, the callback is called once, at the third
  notification, with \<open>dt = 0.020\<close>.
\<close>

theorem KernelScheduler_tick_rate_cap:
  "executing s \<Longrightarrow>
     KernelScheduler_tick callback s timeMS =
       (if exceeds_period (timeMS / 1000 - lastTick s) (targetFPS s)
        then scheduleTick ((callback (timeMS / 1000 - lastTick s) s)\<lparr>lastTick := timeMS / 1000\<rparr>)
        else scheduleTick s) \<and>
     lastTick (scheduleTick ((callback (timeMS / 1000 - lastTick s) s)\<lparr>lastTick := timeMS / 1000\<rparr>))
       = timeMS / 1000 \<and>
     lastTick (scheduleTick s) = lastTick s \<and>
     KernelScheduler.more (animation_frames record_call started [0, 5]) = [] \<and>
     KernelScheduler.more (animation_frames record_call started [0, 5, 20]) = [20 / 1000] \<and>
     lastTick (animation_frames record_call started [0, 5, 20]) = 20 / 1000"
  by (simp add: scheduler_defs)

theorem KernelScheduler_tick_rate_cap_witness:
  "executing started \<and>
   KernelScheduler.more (KernelScheduler_tick record_call started 5) = [] \<and>
   lastTick (KernelScheduler_tick record_call started 5) = 0 \<and>
   KernelScheduler.more (KernelScheduler_tick record_call started 20) = [1 / 50] \<and>
   lastTick (KernelScheduler_tick record_call started 20) = 1 / 50"
  using KernelScheduler_tick_rate_cap [of started record_call 5]
    KernelScheduler_tick_rate_cap [of started record_call 20]
  by (simp add: scheduler_defs)

section \<open>Composite buttons\<close>

text \<open>
  C4.  In every state \<open>w\<close>, \<^verbatim>\<open>AndButton(a,b).isDown()\<close> is \<open>a.isDown() && b.isDown()\<close>,
  \<^verbatim>\<open>OrButton(a,b).isDown()\<close> is \<open>a.isDown() || b.isDown()\<close> and \<^verbatim>\<open>NotButton(a).isDown()\<close> is
  \<open>!a.isDown()\<close>.  The result is computed from the children in the state of the call:
  it is the same whatever any \<^verbatim>\<open>wasDown\<close> field holds, and a call of the composite's own
  \<^verbatim>\<open>update\<close> changes the \<open>isDown()\<close> of no button.
\<close>

theorem composite_isDown_pure:
  "isDown w (AndButton i a b) = (isDown w a \<and> isDown w b) \<and>
   isDown w (OrButton i a b) = (isDown w a \<or> isDown w b) \<and>
   isDown w (NotButton i a) = (\<not> isDown w a) \<and>
   isDown (w\<lparr>wasDown := f\<rparr>) c = isDown w c \<and>
   isDown (update w (AndButton i a b) dt) c = isDown w c \<and>
   isDown (update w (OrButton i a b) dt) c = isDown w c \<and>
   isDown (update w (NotButton i a) dt) c = isDown w c"
  by (simp add: Button_update_def isDown_state_cong [of "w\<lparr>wasDown := g\<rparr>" w for g])

section \<open>What the keyboard steps\<close>

text \<open>
  C5.  \<^verbatim>\<open>Keyboard.update(dt)\<close> is the sequence of the \<^verbatim>\<open>Key.update(dt)\<close> calls on the keys
  in the keyboard's list, and \<^verbatim>\<open>Keyboard.key\<close> is what appends to that list.  The call
  leaves the \<^verbatim>\<open>wasDown\<close> of every \<^verbatim>\<open>AndButton\<close>, \<^verbatim>\<open>OrButton\<close> and \<^verbatim>\<open>NotButton\<close> as it
  was, and also the \<^verbatim>\<open>wasDown\<close> and \<^verbatim>\<open>state\<close> of every key that is not in the list.
\<close>

theorem Keyboard_update_no_cascade:
  "wasDown (Keyboard_update w kb dt) (AndButton i l r) = wasDown w (AndButton i l r) \<and>
   wasDown (Keyboard_update w kb dt) (OrButton i l r) = wasDown w (OrButton i l r) \<and>
   wasDown (Keyboard_update w kb dt) (NotButton i l) = wasDown w (NotButton i l) \<and>
   Keyboard_update w kb dt = fold (\<lambda>k v. Key_update v k dt) (keys w kb) w \<and>
   keys (snd (Keyboard_key w kb name)) kb = keys w kb @ [Key (next_oid w) kb name] \<and>
   (k \<notin> set (keys w kb) \<longrightarrow>
      wasDown (Keyboard_update w kb dt) (Leaf k) = wasDown w (Leaf k) \<and>
      state (Keyboard_update w kb dt) k = state w k)"
proof -
  have fold: "Keyboard_update w kb dt = fold (\<lambda>k v. Key_update v k dt) (keys w kb) w"
    by (simp add: Keyboard_update_def forEach_update_fold)
  have comp: "wasDown (Keyboard_update w kb dt) (AndButton i l r) = wasDown w (AndButton i l r)"
    "wasDown (Keyboard_update w kb dt) (OrButton i l r) = wasDown w (OrButton i l r)"
    "wasDown (Keyboard_update w kb dt) (NotButton i l) = wasDown w (NotButton i l)"
    by (auto simp: Keyboard_update_def intro!: forEach_update_wasDown)
  have issued: "keys (snd (Keyboard_key w kb name)) kb = keys w kb @ [Key (next_oid w) kb name]"
    by (simp add: Keyboard_key_def new_Key_def Let_def)
  have other: "k \<notin> set (keys w kb) \<longrightarrow>
      wasDown (Keyboard_update w kb dt) (Leaf k) = wasDown w (Leaf k) \<and>
      state (Keyboard_update w kb dt) k = state w k"
    by (auto simp: Keyboard_update_def forEach_update_state intro!: forEach_update_wasDown)
  from fold comp issued other show ?thesis by blast
qed

text \<open>
  Both keys are held down.  The keyboard samples the key it issued; the key made by hand
  and an \<^verbatim>\<open>AndButton\<close> over the two are not stepped.
\<close>

theorem Keyboard_update_no_cascade_witness:
  "Key 2 0 ''a'' \<notin> set (keys (Keyboard_onkeydown (Keyboard_onkeydown demo 0 ''a'') 0 ''Enter'') 0) \<and>
   \<not> state (Keyboard_update (Keyboard_onkeydown (Keyboard_onkeydown demo 0 ''a'') 0 ''Enter'') 0 (1 / 60))
       (Key 2 0 ''a'') \<and>
   state (Keyboard_update (Keyboard_onkeydown (Keyboard_onkeydown demo 0 ''a'') 0 ''Enter'') 0 (1 / 60))
       (Key 1 0 ''Enter'') \<and>
   \<not> wasDown (Keyboard_update (Keyboard_onkeydown (Keyboard_onkeydown demo 0 ''a'') 0 ''Enter'') 0 (1 / 60))
       (AndButton 3 (Leaf (Key 1 0 ''Enter'')) (Leaf (Key 1 0 ''Enter'')))"
  using Keyboard_update_no_cascade [of "Keyboard_onkeydown (Keyboard_onkeydown demo 0 ''a'') 0 ''Enter''"
      0 "1 / 60" 3 "Leaf (Key 1 0 ''Enter'')" "Leaf (Key 1 0 ''Enter'')" "''a''" "Key 2 0 ''a''"]
  by (simp add: demo_defs)

text \<open>
  What the caveat of the claim means: \<^verbatim>\<open>'Enter'\<close> is held during two ticks of the
  keyboard.  On the second the key no longer reports \<open>pressed\<close>, but an \<^verbatim>\<open>AndButton\<close>
  over it, which nobody has stepped, still does.
\<close>

lemma unstepped_composite_keeps_pressed:
  "\<not> pressed (Keyboard_update (Keyboard_update (Keyboard_onkeydown demo 0 ''Enter'') 0 (1 / 60))
        0 (1 / 60)) (Leaf (Key 1 0 ''Enter'')) \<and>
   pressed (Keyboard_update (Keyboard_update (Keyboard_onkeydown demo 0 ''Enter'') 0 (1 / 60))
        0 (1 / 60)) (AndButton 3 (Leaf (Key 1 0 ''Enter'')) (Leaf (Key 1 0 ''Enter'')))"
  by (simp add: demo_defs pressed_def)

section \<open>The scene stack\<close>

text \<open>
  C6.  When \<open>B\<close> is on top of the stack and \<open>A\<close> directly below, \<^verbatim>\<open>swap(C)\<close> is the pop
  followed by the push, both inside the one call, and leaves \<open>C\<close> on top with \<open>A\<close>
  directly below and the rest of the stack as it was.  The call runs no scene code and
  no tick; the tick that comes after it updates and renders \<open>C\<close>, whatever the scenes do.
\<close>

theorem Kernel_swap_atomic:
  "scenes w = below @ [A, B] \<Longrightarrow>
     Kernel_swap w C = Kernel_push (Kernel_pop w) C \<and>
     scenes (Kernel_swap w C) = below @ [A, C] \<and>
     Kernel_scene (Kernel_swap w C) = Some C \<and>
     Kernel_scene (Kernel_pop (Kernel_swap w C)) = Some A \<and>
     Kernel_tick upd rnd (Kernel_swap w C) dt =
       rnd C dt (clearRect (upd C dt
         (Keyboard_update (Kernel_swap w C) (keyboardDevice w) dt)))"
  by (simp add: Kernel_swap_def Kernel_push_def Kernel_pop_def Kernel_scene_def Kernel_tick_def
      Keyboard_update_def forEach_update_scenes butlast_append Let_def nth_append)

theorem Kernel_swap_atomic_witness:
  "scenes (Kernel_push (Kernel_push demo 4) 5) = [] @ [4, 5] \<and>
   scenes (Kernel_swap (Kernel_push (Kernel_push demo 4) 5) 6) = [4, 6] \<and>
   Kernel_scene (Kernel_swap (Kernel_push (Kernel_push demo 4) 5) 6) = Some 6 \<and>
   surface (Kernel_tick draw_update draw_render
      (Kernel_swap (Kernel_push (Kernel_push demo 4) 5) 6) (1 / 60)) = [''render'']"
  using Kernel_swap_atomic [of "Kernel_push (Kernel_push demo 4) 5" "[]" 4 5 6
      draw_update draw_render "1 / 60"]
  by (simp add: demo_defs Kernel_push_def Kernel_pop_def Kernel_swap_def Kernel_scene_def
      clearRect_def draw_update_def draw_render_def)

text \<open>
  C7.  \<^verbatim>\<open>push(A); push(B); pop()\<close> ends in the very state that \<^verbatim>\<open>push(A)\<close> alone gives:
  \<open>A\<close> is the active scene, and what every scene holds is what it held before.
  \<^verbatim>\<open>pop()\<close> changes the stack only, by removing its top.
\<close>

theorem Kernel_push_push_pop:
  "Kernel_pop (Kernel_push (Kernel_push w A) B) = Kernel_push w A \<and>
   Kernel_scene (Kernel_pop (Kernel_push (Kernel_push w A) B)) = Some A \<and>
   scene_store (Kernel_pop (Kernel_push (Kernel_push w A) B)) = scene_store w \<and>
   scene_store (Kernel_pop w) = scene_store w \<and>
   scenes (Kernel_pop w) = butlast (scenes w) \<and>
   Kernel_pop w = w\<lparr>scenes := butlast (scenes w)\<rparr>"
  by (simp add: Kernel_pop_def Kernel_push_def Kernel_scene_def butlast_append)

section \<open>Keys and the raw map\<close>

text \<open>
  C8.  If the raw map of the keyboard has no entry for the name of a key, then after the
  key's \<^verbatim>\<open>update\<close> its \<open>isDown()\<close> is false (and \<open>isUp()\<close> true); the update returns a
  state in every case.
\<close>

theorem Key_absent_is_up:
  "states w kb name = None \<Longrightarrow>
     isDown (update w (Leaf (Key i kb name)) dt) (Leaf (Key i kb name)) = False \<and>
     isUp (update w (Leaf (Key i kb name)) dt) (Leaf (Key i kb name)) = True \<and>
     isDown (Keyboard_update (snd (Keyboard_key w kb name)) kb dt)
       (fst (Keyboard_key w kb name)) = False"
proof -
  assume absent: "states w kb name = None"
  have direct: "isDown (update w (Leaf (Key i kb name)) dt) (Leaf (Key i kb name)) = False"
    using absent by (simp add: Button_update_def)
  have "isDown (forEach_update v (ks @ [Key j kb name]) dt) (Leaf (Key j kb name)) = False"
    if "states v kb name = None" for v :: "'a world" and ks j
    using that
  proof (induction ks arbitrary: v)
    case Nil
    then show ?case by (simp add: Button_update_def)
  next
    case (Cons k ks)
    have "states (Key_update v k dt) = states v"
      by (cases k) (simp add: Button_update_def)
    with Cons show ?case by (simp del: Key_update.simps)
  qed
  from this [where v = "snd (Keyboard_key w kb name)" and j = "next_oid w" and ks = "keys w kb"] absent
  have issued: "isDown (Keyboard_update (snd (Keyboard_key w kb name)) kb dt)
       (fst (Keyboard_key w kb name)) = False"
    by (simp add: Keyboard_update_def Keyboard_key_def new_Key_def Let_def)
  from direct issued show ?thesis by (simp add: isUp_def)
qed

text \<open>\<^verbatim>\<open>'Enter'\<close> was pressed and released before the update; \<^verbatim>\<open>'q'\<close> was never pressed.\<close>

theorem Key_absent_is_up_witness:
  "states (Keyboard_onkeyup (Keyboard_onkeydown demo 0 ''Enter'') 0 ''Enter'') 0 ''Enter'' = None \<and>
   \<not> isDown (update (Keyboard_onkeyup (Keyboard_onkeydown demo 0 ''Enter'') 0 ''Enter'')
        (Leaf (Key 1 0 ''Enter'')) (1 / 60)) (Leaf (Key 1 0 ''Enter'')) \<and>
   states demo 0 ''q'' = None \<and>
   \<not> isDown (Keyboard_update (snd (Keyboard_key demo 0 ''q'')) 0 (1 / 60))
        (fst (Keyboard_key demo 0 ''q''))"
  using Key_absent_is_up [of "Keyboard_onkeyup (Keyboard_onkeydown demo 0 ''Enter'') 0 ''Enter''"
      0 "''Enter''" 1 "1 / 60"]
    Key_absent_is_up [of demo 0 "''q''" 1 "1 / 60"]
  by (simp add: demo_defs)

text \<open>
  C9.  Raw key-down and key-up notifications, in any number and for any keyboard and
  name, change none of \<open>isDown()\<close>, \<open>isUp()\<close>, \<open>pressed()\<close> and \<open>release()\<close> of a key: the
  four results after the notifications \<open>es\<close> are those before them, and so two runs
  that differ only in the notifications \<open>es\<close> and \<open>es'\<close> delivered since the last update
  give the same four results.
\<close>

theorem Key_queries_ignore_raw_events:
  "isDown (deliver_all es w) (Leaf k) = isDown w (Leaf k) \<and>
   isUp (deliver_all es w) (Leaf k) = isUp w (Leaf k) \<and>
   pressed (deliver_all es w) (Leaf k) = pressed w (Leaf k) \<and>
   release (deliver_all es w) (Leaf k) = release w (Leaf k) \<and>
   isDown (deliver_all es w) (Leaf k) = isDown (deliver_all es' w) (Leaf k) \<and>
   isUp (deliver_all es w) (Leaf k) = isUp (deliver_all es' w) (Leaf k) \<and>
   pressed (deliver_all es w) (Leaf k) = pressed (deliver_all es' w) (Leaf k) \<and>
   release (deliver_all es w) (Leaf k) = release (deliver_all es' w) (Leaf k)"
  by (simp add: isUp_def pressed_def release_def deliver_all_state deliver_all_wasDown)

section \<open>The identifier of a NotButton\<close>

text \<open>
  C10.  \<^verbatim>\<open>id()\<close> of a \<^verbatim>\<open>NotButton\<close> returns no string: the method calls \<^verbatim>\<open>this.id()\<close>,
  itself, where the other classes call \<^verbatim>\<open>id()\<close> of a child.
\<close>

theorem NotButton_id_diverges:
  "Button_id text_of (NotButton i b) = None"
proof (cases "Button_id text_of (NotButton i b)")
  case None
  then show ?thesis .
next
  case (Some s)
  with NotButton_id_unfold [of text_of i b] have "Some s = Some (''!'' @ s)"
    by simp
  then show ?thesis by simp
qed

end
